theory Spec2Isabelle
  imports Main "HOL-Library.Multiset"
begin

section \<open>Data model\<close>

text \<open>
  The backend keeps two MongoDB collections the handlers below work on (User and Message)
  and, in the process of \<^verbatim>\<open>server.js\<close>, two JavaScript Maps that form the connection
  registry. A timestamp is the number \<^verbatim>\<open>new Date()\<close> stands for. The schema files
  \<^verbatim>\<open>models/User.js\<close>, \<^verbatim>\<open>models/Message.js\<close> and \<^verbatim>\<open>models/Post.js\<close> are not among the
  sources: the records hold the fields the handlers read and write, and a \<^verbatim>\<open>save()\<close> of
  a record built by a handler is taken to pass schema validation.

  A \<open>user_id\<close> is an ObjectId in its canonical spelling, the one \<^verbatim>\<open>_id.toString()\<close> and
  \<^verbatim>\<open>req.user.id\<close> give: hexadecimal digits with the letters in lower case. The documents
  are keyed by it and hold it in their reference fields. A request parameter
  (\<^verbatim>\<open>req.params.id\<close>, \<^verbatim>\<open>req.body.receiver\<close>, the arguments of a socket event) is any string:
  where a handler hands it to the database (\<^verbatim>\<open>findById\<close>, a query filter, an update, a
  new document) it is cast to an ObjectId, which ignores the case of the hexadecimal
  letters; where a handler compares it itself (\<^verbatim>\<open>===\<close>, \<^verbatim>\<open>includes\<close>,
  \<^verbatim>\<open>toString() ===\<close>) the string is compared as it came. Identifiers are taken to be
  well-formed (a string that is no ObjectId makes the cast throw), and the scenarios
  abbreviate the 24 digits of an identifier to one.
\<close>

type_synonym user_id = string
type_synonym socket_id = string
type_synonym timestamp = int

definition lower_hex :: "char \<Rightarrow> char" where
  "lower_hex c =
     (if c = CHR ''A'' then CHR ''a'' else if c = CHR ''B'' then CHR ''b''
      else if c = CHR ''C'' then CHR ''c'' else if c = CHR ''D'' then CHR ''d''
      else if c = CHR ''E'' then CHR ''e'' else if c = CHR ''F'' then CHR ''f'' else c)"

definition cast_id :: "string \<Rightarrow> user_id" where
  "cast_id raw = map lower_hex raw"

text \<open>
  A pending request is the subdocument \<^verbatim>\<open>{ from | to, createdAt }\<close>: the counterparty and
  the time of the request.
\<close>

type_synonym pending = "user_id \<times> timestamp"

record user =
  email :: string
  password :: string
  firstName :: string
  lastName :: string
  friends :: "user_id list"
  friendRequests :: "pending list"
  sentFriendRequests :: "pending list"

record message =
  msg_id :: nat
  sender :: user_id
  receiver :: user_id
  content :: string
  messageType :: string
  fileUrl :: string
  isRead :: bool
  readAt :: "timestamp option"
  createdAt :: timestamp

text \<open>
  The Message and Post collections are lists in insertion order. \<^verbatim>\<open>activeUsers\<close> and
  \<^verbatim>\<open>socketToUser\<close> are the two Maps of \<^verbatim>\<open>server.js\<close>.
\<close>

text \<open>
  A post, as far as the list queries read it: \<^verbatim>\<open>privacy\<close> is the string the client
  sent (\<^verbatim>\<open>'public'\<close>, \<^verbatim>\<open>'friends'\<close> or \<^verbatim>\<open>'private'\<close>; the default is
  \<^verbatim>\<open>'friends'\<close>).
\<close>

record post =
  post_id :: nat
  author :: user_id
  post_content :: string
  privacy :: string
  post_createdAt :: timestamp

record state =
  users :: "user_id \<rightharpoonup> user"
  messages :: "message list"
  posts :: "post list"
  activeUsers :: "user_id \<rightharpoonup> socket_id"
  socketToUser :: "socket_id \<rightharpoonup> user_id"

definition empty_state :: state where
  "empty_state = \<lparr>users = Map.empty, messages = [], posts = [],
     activeUsers = Map.empty, socketToUser = Map.empty\<rparr>"

text \<open>The HTTP failures of the REST handlers: 400, 403, 404 and 500, with the message.\<close>

datatype error =
  BadRequest string
  | Forbidden string
  | NotFound string
  | ServerError string

subsection \<open>JavaScript strings and paging\<close>

text \<open>
  \<^verbatim>\<open>String.prototype.trim\<close> on 8-bit characters: the white space is TAB, LF, VT, FF, CR,
  the space and the no-break space. A string is falsy exactly when it is empty.
\<close>

definition is_space :: "char \<Rightarrow> bool" where
  "is_space c = (c \<in> set [CHR 0x09, CHR 0x0A, CHR 0x0B, CHR 0x0C, CHR 0x0D, CHR 0x20, CHR 0xA0])"

definition trim :: "string \<Rightarrow> string" where
  "trim s = rev (dropWhile is_space (rev (dropWhile is_space s)))"

definition truthy :: "string \<Rightarrow> bool" where
  "truthy s = (s \<noteq> [])"

text \<open>
  The list queries page with \<^verbatim>\<open>.limit(parseInt(limit)).skip((page - 1) * limit)\<close>: the
  database skips first and then limits, a limit of 0 is no limit, and a negative skip
  is refused (the awaited query throws and the handler's \<^verbatim>\<open>catch\<close> answers 500).
\<close>

text \<open>
  A query's \<^verbatim>\<open>sort({ createdAt: -1 })\<close> and the pipeline's \<^verbatim>\<open>$sort\<close> order the documents
  by the key, descending, and leave the order of documents with equal keys open. A
  handler that sorts therefore takes the ordering the database applies as an argument
  \<open>srt\<close>; what is known of it is \<open>desc_sort\<close>: the result holds the same documents and
  is in descending order of the key.
\<close>

definition desc_sort :: "('a \<Rightarrow> int) \<Rightarrow> ('a list \<Rightarrow> 'a list) \<Rightarrow> bool" where
  "desc_sort key srt =
     (\<forall>xs. mset (srt xs) = mset xs \<and> sorted_wrt (\<lambda>a b. key b \<le> key a) (srt xs))"

text \<open>
  Two such orderings: one keeps documents with equal keys in insertion order, the other
  reverses them.
\<close>

definition stable_desc :: "('a \<Rightarrow> int) \<Rightarrow> 'a list \<Rightarrow> 'a list" where
  "stable_desc key xs = sort_key (\<lambda>x. - key x) xs"

definition reversed_desc :: "('a \<Rightarrow> int) \<Rightarrow> 'a list \<Rightarrow> 'a list" where
  "reversed_desc key xs = rev (sort_key key xs)"

definition negative_skip :: "nat \<Rightarrow> nat \<Rightarrow> bool" where
  "negative_skip page limit = ((int page - 1) * int limit < 0)"

definition page_of :: "nat \<Rightarrow> nat \<Rightarrow> 'a list \<Rightarrow> 'a list" where
  "page_of page limit xs =
     (let skip = nat ((int page - 1) * int limit)
      in if limit = 0 then drop skip xs else take limit (drop skip xs))"

section \<open>The real-time channel (server.js)\<close>

text \<open>
  An emission is \<^verbatim>\<open>io.to(room).emit(event, payload)\<close>: the room (a socket id), the event
  name and the message sent. The acknowledgement is what the handler passes to the
  callback \<^verbatim>\<open>ack\<close> when the client supplied one.
\<close>

type_synonym emission = "socket_id \<times> string \<times> message"

datatype ack = AckFailure string | AckSuccess message

text \<open>
  \<^verbatim>\<open>socket.on('join', (userId) => { activeUsers.set(userId, socket.id);
  socketToUser.set(socket.id, userId); socket.join(userId); })\<close>
\<close>

definition on_join :: "socket_id \<Rightarrow> user_id \<Rightarrow> state \<Rightarrow> emission list \<times> state" where
  "on_join sid userId s =
     ([], s\<lparr>activeUsers := (activeUsers s)(userId \<mapsto> sid),
             socketToUser := (socketToUser s)(sid \<mapsto> userId)\<rparr>)"

text \<open>
  \<^verbatim>\<open>socket.on('disconnect', () => { const userId = socketToUser.get(socket.id);
  if (userId) { activeUsers.delete(userId); socketToUser.delete(socket.id); } })\<close>
\<close>

definition on_disconnect :: "socket_id \<Rightarrow> state \<Rightarrow> emission list \<times> state" where
  "on_disconnect sid s =
     (case socketToUser s sid of
        None \<Rightarrow> ([], s)
      | Some userId \<Rightarrow>
          if truthy userId
          then ([], s\<lparr>activeUsers := (activeUsers s)(userId := None),
                       socketToUser := (socketToUser s)(sid := None)\<rparr>)
          else ([], s))"

text \<open>
  \<^verbatim>\<open>socket.on('sendMessage', async (data, ack) => ...)\<close>. The arguments are the fields
  destructured from \<^verbatim>\<open>data || {}\<close>: \<open>None\<close> is a field that is absent (for
  \<^verbatim>\<open>content\<close> also one that is not a string); \<open>new_id\<close> is the ObjectId and \<open>now\<close> the
  creation time given to the new document, whose sender and receiver are cast. The
  registry is looked up with the receiver string as it came. The chained \<^verbatim>\<open>populate\<close> calls are taken
  to return the document, as the handler expects; the payload emitted is the stored
  document (its populated display names play no part here).
\<close>

definition new_message ::
  "nat \<Rightarrow> timestamp \<Rightarrow> user_id \<Rightarrow> user_id \<Rightarrow> string \<Rightarrow> string \<Rightarrow> string \<Rightarrow> message" where
  "new_message new_id now s r c mt fu =
     \<lparr>msg_id = new_id, sender = s, receiver = r, content = c, messageType = mt,
      fileUrl = fu, isRead = False, readAt = None, createdAt = now\<rparr>"

definition on_sendMessage ::
  "socket_id \<Rightarrow> string option \<Rightarrow> string option \<Rightarrow> string option \<Rightarrow> string option \<Rightarrow>
   nat \<Rightarrow> timestamp \<Rightarrow> state \<Rightarrow> ack \<times> emission list \<times> state" where
  "on_sendMessage sid receiverId content_arg messageType_arg fileUrl_arg new_id now s =
     (case socketToUser s sid of
        None \<Rightarrow> (AckFailure ''Not joined'', [], s)
      | Some senderId \<Rightarrow>
          if \<not> truthy senderId then (AckFailure ''Not joined'', [], s)
          else
            (case (receiverId, content_arg) of
               (Some r, Some c) \<Rightarrow>
                 if \<not> truthy r \<or> \<not> truthy c \<or> \<not> truthy (trim c)
                 then (AckFailure ''receiverId and non-empty content are required'', [], s)
                 else
                   let m = new_message new_id now (cast_id senderId) (cast_id r) (trim c)
                             (case messageType_arg of None \<Rightarrow> ''text'' | Some t \<Rightarrow> t)
                             (case fileUrl_arg of None \<Rightarrow> [] | Some f \<Rightarrow> f);
                       to_receiver =
                         (case activeUsers s r of
                            None \<Rightarrow> []
                          | Some receiverSocketId \<Rightarrow>
                              if truthy receiverSocketId
                              then [(receiverSocketId, ''receiveMessage'', m)] else [])
                   in (AckSuccess m, to_receiver @ [(sid, ''messageSent'', m)],
                       s\<lparr>messages := messages s @ [m]\<rparr>)
             | _ \<Rightarrow> (AckFailure ''receiverId and non-empty content are required'', [], s)))"


section \<open>The message routes (routes/messages.js)\<close>

text \<open>
  A REST handler returns its response (an error, or the payload of a success) and the
  state it leaves. \<open>uid\<close> is \<^verbatim>\<open>req.user.id\<close>, the identity the auth middleware attached.
\<close>

text \<open>
  \<^verbatim>\<open>POST /api/messages\<close>. The validators reject an empty receiver, and a content that is
  empty or longer than 1000 characters once trimmed (the sanitizer \<^verbatim>\<open>trim()\<close> rewrites
  \<^verbatim>\<open>req.body.content\<close>). The receiver is looked up and stored through a cast, and
  compared with the friend list and with \<^verbatim>\<open>req.user.id\<close> as the string it came. A sender
  whose own document is missing makes \<^verbatim>\<open>senderUser.friends\<close> throw, which the
  \<^verbatim>\<open>catch\<close> answers with 500.
\<close>

definition post_message ::
  "user_id \<Rightarrow> string \<Rightarrow> string \<Rightarrow> string option \<Rightarrow> string option \<Rightarrow> nat \<Rightarrow> timestamp \<Rightarrow>
   state \<Rightarrow> (error + message) \<times> state" where
  "post_message uid receiver_arg content_arg messageType_arg fileUrl_arg new_id now s =
     (if \<not> truthy receiver_arg \<or> \<not> truthy (trim content_arg) \<or> 1000 < length (trim content_arg)
      then (Inl (BadRequest ''Validation errors''), s)
      else
        (case users s (cast_id receiver_arg) of
           None \<Rightarrow> (Inl (NotFound ''Receiver not found''), s)
         | Some receiverUser \<Rightarrow>
             (case users s uid of
                None \<Rightarrow> (Inl (ServerError ''Server error''), s)
              | Some senderUser \<Rightarrow>
                  if receiver_arg \<notin> set (friends senderUser) \<and> receiver_arg \<noteq> uid
                  then (Inl (Forbidden ''You can only send messages to friends''), s)
                  else
                    let m = new_message new_id now uid (cast_id receiver_arg)
                              (trim content_arg)
                              (case messageType_arg of None \<Rightarrow> ''text'' | Some t \<Rightarrow> t)
                              (case fileUrl_arg of None \<Rightarrow> [] | Some f \<Rightarrow> f)
                    in (Inr m, s\<lparr>messages := messages s @ [m]\<rparr>))))"

text \<open>
  \<^verbatim>\<open>GET /api/messages/conversations\<close>: the aggregation pipeline, stage by stage.
  \<^verbatim>\<open>$match\<close> keeps the messages the user sent or received, \<^verbatim>\<open>$addFields\<close> computes
  \<^verbatim>\<open>otherUser\<close>, \<^verbatim>\<open>$sort\<close> orders by \<^verbatim>\<open>createdAt\<close> descending (the ordering
  \<open>sort_messages\<close>), \<^verbatim>\<open>$group\<close> runs the accumulators \<^verbatim>\<open>$first\<close> and \<^verbatim>\<open>$sum\<close> over
  the sorted documents, \<^verbatim>\<open>$lookup\<close> with \<^verbatim>\<open>$unwind\<close> joins the counterparty's User
  document and drops a group that has none, and the last \<^verbatim>\<open>$sort\<close> orders the rows by
  the time of their last message, descending (the ordering \<open>sort_rows\<close>).
\<close>

definition involves :: "user_id \<Rightarrow> message \<Rightarrow> bool" where
  "involves u m = (sender m = u \<or> receiver m = u)"

definition otherUser :: "user_id \<Rightarrow> message \<Rightarrow> user_id" where
  "otherUser u m = (if sender m = u then receiver m else sender m)"

definition unread_for :: "user_id \<Rightarrow> message \<Rightarrow> nat" where
  "unread_for u m = (if receiver m = u \<and> isRead m = False then 1 else 0)"

type_synonym group_acc = "user_id \<times> message \<times> nat"

fun accumulate :: "user_id \<Rightarrow> message \<Rightarrow> group_acc list \<Rightarrow> group_acc list" where
  "accumulate u m [] = [(otherUser u m, m, unread_for u m)]"
| "accumulate u m ((k, lm, c) # gs) =
     (if k = otherUser u m then (k, lm, c + unread_for u m) # gs
      else (k, lm, c) # accumulate u m gs)"

definition group_stage :: "user_id \<Rightarrow> message list \<Rightarrow> group_acc list" where
  "group_stage u docs = foldl (\<lambda>gs m. accumulate u m gs) [] docs"

record conversation =
  conv_id :: user_id
  lastMessage :: message
  unreadCount :: nat
  userInfo :: user

definition lookup_unwind :: "(user_id \<rightharpoonup> user) \<Rightarrow> group_acc \<Rightarrow> conversation option" where
  "lookup_unwind us g =
     (case g of (k, lm, c) \<Rightarrow>
        (case us k of
           None \<Rightarrow> None
         | Some info \<Rightarrow>
             Some \<lparr>conv_id = k, lastMessage = lm, unreadCount = c, userInfo = info\<rparr>))"

definition get_conversations ::
  "(message list \<Rightarrow> message list) \<Rightarrow> (conversation list \<Rightarrow> conversation list) \<Rightarrow>
   user_id \<Rightarrow> state \<Rightarrow> conversation list" where
  "get_conversations sort_messages sort_rows uid s =
     sort_rows
       (List.map_filter (lookup_unwind (users s))
          (group_stage uid (sort_messages (filter (involves uid) (messages s)))))"

definition last_time :: "conversation \<Rightarrow> timestamp" where
  "last_time r = createdAt (lastMessage r)"


text \<open>
  \<^verbatim>\<open>GET /api/messages/:userId\<close> (defaults: page 1, limit 50). Every use of the URL
  parameter goes through a cast: \<open>otherUserId\<close> is the identifier it is cast to. The page
  is read first, newest first (the ordering \<open>srt\<close>); then \<^verbatim>\<open>updateMany\<close> marks every unread message from the other user to
  the current user as read; then the total is counted. The response carries the page
  oldest first, and the total.
\<close>

definition between :: "user_id \<Rightarrow> user_id \<Rightarrow> message \<Rightarrow> bool" where
  "between a b m = ((sender m = a \<and> receiver m = b) \<or> (sender m = b \<and> receiver m = a))"

definition mark_as_read :: "timestamp \<Rightarrow> message \<Rightarrow> message" where
  "mark_as_read now m = m\<lparr>isRead := True, readAt := Some now\<rparr>"

definition updateMany_read :: "user_id \<Rightarrow> user_id \<Rightarrow> timestamp \<Rightarrow> message list \<Rightarrow> message list" where
  "updateMany_read otherUserId currentUserId now ms =
     map (\<lambda>m. if sender m = otherUserId \<and> receiver m = currentUserId \<and> isRead m = False
              then mark_as_read now m else m) ms"

definition get_messages ::
  "(message list \<Rightarrow> message list) \<Rightarrow> user_id \<Rightarrow> user_id \<Rightarrow> nat \<Rightarrow> nat \<Rightarrow> timestamp \<Rightarrow>
   state \<Rightarrow> (error + message list \<times> nat) \<times> state" where
  "get_messages srt currentUserId otherUserId page limit now s =
     (case users s otherUserId of
        None \<Rightarrow> (Inl (NotFound ''User not found''), s)
      | Some otherUserDoc \<Rightarrow>
          if negative_skip page limit then (Inl (ServerError ''Server error''), s)
          else
            let found = page_of page limit
                          (srt (filter (between currentUserId otherUserId) (messages s)));
                s' = s\<lparr>messages := updateMany_read otherUserId currentUserId now (messages s)\<rparr>;
                total = length (filter (between currentUserId otherUserId) (messages s'))
            in (Inr (rev found, total), s'))"

text \<open>
  \<^verbatim>\<open>PUT /api/messages/:messageId/read\<close> and \<^verbatim>\<open>DELETE /api/messages/:messageId\<close> work on
  the document \<^verbatim>\<open>findById\<close> returns: the first (and, under the unique index on
  \<^verbatim>\<open>_id\<close>, only) document with that id.
\<close>

fun update_first :: "('a \<Rightarrow> bool) \<Rightarrow> ('a \<Rightarrow> 'a) \<Rightarrow> 'a list \<Rightarrow> 'a list" where
  "update_first P f [] = []"
| "update_first P f (x # xs) = (if P x then f x # xs else x # update_first P f xs)"

fun delete_first :: "('a \<Rightarrow> bool) \<Rightarrow> 'a list \<Rightarrow> 'a list" where
  "delete_first P [] = []"
| "delete_first P (x # xs) = (if P x then xs else x # delete_first P xs)"

definition put_read :: "nat \<Rightarrow> user_id \<Rightarrow> timestamp \<Rightarrow> state \<Rightarrow> (error + unit) \<times> state" where
  "put_read messageId userId now s =
     (case find (\<lambda>m. msg_id m = messageId) (messages s) of
        None \<Rightarrow> (Inl (NotFound ''Message not found''), s)
      | Some m \<Rightarrow>
          if receiver m \<noteq> userId
          then (Inl (Forbidden ''Not authorized to mark this message as read''), s)
          else if \<not> isRead m
          then (Inr (), s\<lparr>messages :=
                  update_first (\<lambda>x. msg_id x = messageId) (mark_as_read now) (messages s)\<rparr>)
          else (Inr (), s))"

definition delete_message :: "nat \<Rightarrow> user_id \<Rightarrow> state \<Rightarrow> (error + unit) \<times> state" where
  "delete_message messageId userId s =
     (case find (\<lambda>m. msg_id m = messageId) (messages s) of
        None \<Rightarrow> (Inl (NotFound ''Message not found''), s)
      | Some m \<Rightarrow>
          if sender m \<noteq> userId
          then (Inl (Forbidden ''Not authorized to delete this message''), s)
          else (Inr (), s\<lparr>messages := delete_first (\<lambda>x. msg_id x = messageId) (messages s)\<rparr>))"

text \<open>\<^verbatim>\<open>GET /api/messages/unread/count\<close>: every unread message addressed to the user.\<close>

definition unread_count :: "user_id \<Rightarrow> state \<Rightarrow> nat" where
  "unread_count uid s = length (filter (\<lambda>m. receiver m = uid \<and> isRead m = False) (messages s))"

section \<open>The post routes (routes/posts.js): list queries\<close>

text \<open>
  \<^verbatim>\<open>GET /api/posts/feed\<close>: the requester's own posts, and the posts of the users in the
  requester's friend list whose privacy is \<^verbatim>\<open>'public'\<close> or \<^verbatim>\<open>'friends'\<close>, newest first,
  in the ordering \<open>srt\<close>, paged (defaults: page 1, limit 10). The response carries the
  page and the total.
\<close>

definition feed_filter :: "user_id \<Rightarrow> user_id list \<Rightarrow> post \<Rightarrow> bool" where
  "feed_filter uid friendIds p =
     (author p = uid \<or>
      (author p \<in> set friendIds \<and> privacy p \<in> set [''public'', ''friends'']))"

definition get_feed ::
  "(post list \<Rightarrow> post list) \<Rightarrow> user_id \<Rightarrow> nat \<Rightarrow> nat \<Rightarrow> state \<Rightarrow> error + post list \<times> nat" where
  "get_feed srt uid page limit s =
     (case users s uid of
        None \<Rightarrow> Inl (ServerError ''Server error'')
      | Some currentUser \<Rightarrow>
          if negative_skip page limit then Inl (ServerError ''Server error'')
          else
            Inr (page_of page limit
                   (srt (filter (feed_filter uid (friends currentUser)) (posts s))),
                 length (filter (feed_filter uid (friends currentUser)) (posts s))))"

text \<open>
  \<^verbatim>\<open>GET /api/posts/user/:userId\<close>: the posts of one author under the privacy filter the
  handler picks: none when the URL parameter is \<^verbatim>\<open>req.user.id\<close>, \<^verbatim>\<open>'public'\<close> and
  \<^verbatim>\<open>'friends'\<close> when the requester's friend list holds the parameter, \<^verbatim>\<open>'public'\<close>
  otherwise. Both tests compare the parameter as the string it came; the user lookup and
  the query's \<^verbatim>\<open>author\<close> filter cast it.
\<close>

definition privacyFilter :: "bool \<Rightarrow> bool \<Rightarrow> post \<Rightarrow> bool" where
  "privacyFilter isOwnProfile isFriend p =
     (if isOwnProfile then True
      else if isFriend then privacy p \<in> set [''public'', ''friends'']
      else privacy p = ''public'')"

definition user_posts_filter :: "user_id \<Rightarrow> user_id list \<Rightarrow> string \<Rightarrow> post \<Rightarrow> bool" where
  "user_posts_filter uid friendIds userId p =
     (author p = cast_id userId \<and> privacyFilter (userId = uid) (userId \<in> set friendIds) p)"

definition get_user_posts ::
  "(post list \<Rightarrow> post list) \<Rightarrow> user_id \<Rightarrow> string \<Rightarrow> nat \<Rightarrow> nat \<Rightarrow> state \<Rightarrow>
   error + post list \<times> nat" where
  "get_user_posts srt uid userId page limit s =
     (case users s (cast_id userId) of
        None \<Rightarrow> Inl (NotFound ''User not found'')
      | Some targetUser \<Rightarrow>
          (case users s uid of
             None \<Rightarrow> Inl (ServerError ''Server error'')
           | Some currentUser \<Rightarrow>
               if negative_skip page limit then Inl (ServerError ''Server error'')
               else
                 Inr (page_of page limit
                        (srt (filter (user_posts_filter uid (friends currentUser) userId)
                                (posts s))),
                      length (filter (user_posts_filter uid (friends currentUser) userId)
                                (posts s)))))"

section \<open>The friend routes (routes/friends.js)\<close>

text \<open>
  Each handler reads both documents, checks, and then issues one
  \<^verbatim>\<open>findByIdAndUpdate\<close> per party: \<open>update_user\<close> applies an update to the stored
  document and does nothing when there is none. \<^verbatim>\<open>$push\<close> appends, \<^verbatim>\<open>$pull\<close> removes
  every matching element, \<^verbatim>\<open>$addToSet\<close> appends unless the element is there. Requests
  are handled one at a time: the two updates of a handler are not interleaved with
  another request.

  In each handler \<^verbatim>\<open>req.params.id\<close> is a string as it came. \<^verbatim>\<open>findById\<close>,
  \<^verbatim>\<open>findByIdAndUpdate\<close> and the update documents cast it; the guards compare it as a
  string with \<^verbatim>\<open>req.user.id\<close> (\<^verbatim>\<open>===\<close>), with the elements of the friend list
  (\<^verbatim>\<open>includes\<close>) and with the canonical strings of the pending entries
  (\<^verbatim>\<open>toString() ===\<close>).
\<close>

definition update_user :: "user_id \<Rightarrow> (user \<Rightarrow> user) \<Rightarrow> state \<Rightarrow> state" where
  "update_user uid f s =
     (case users s uid of
        None \<Rightarrow> s
      | Some u \<Rightarrow> s\<lparr>users := (users s)(uid \<mapsto> f u)\<rparr>)"

definition push_sent :: "user_id \<Rightarrow> timestamp \<Rightarrow> user \<Rightarrow> user" where
  "push_sent target now u = u\<lparr>sentFriendRequests := sentFriendRequests u @ [(target, now)]\<rparr>"

definition push_received :: "user_id \<Rightarrow> timestamp \<Rightarrow> user \<Rightarrow> user" where
  "push_received origin now u = u\<lparr>friendRequests := friendRequests u @ [(origin, now)]\<rparr>"

definition pull_sent :: "user_id \<Rightarrow> user \<Rightarrow> user" where
  "pull_sent target u =
     u\<lparr>sentFriendRequests := filter (\<lambda>r. fst r \<noteq> target) (sentFriendRequests u)\<rparr>"

definition pull_received :: "user_id \<Rightarrow> user \<Rightarrow> user" where
  "pull_received origin u =
     u\<lparr>friendRequests := filter (\<lambda>r. fst r \<noteq> origin) (friendRequests u)\<rparr>"

definition addToSet_friend :: "user_id \<Rightarrow> user \<Rightarrow> user" where
  "addToSet_friend f u =
     u\<lparr>friends := (if f \<in> set (friends u) then friends u else friends u @ [f])\<rparr>"

definition pull_friend :: "user_id \<Rightarrow> user \<Rightarrow> user" where
  "pull_friend f u = u\<lparr>friends := filter (\<lambda>x. x \<noteq> f) (friends u)\<rparr>"

text \<open>
  \<^verbatim>\<open>POST /api/friends/request/:id\<close>. A requester whose own document is missing makes
  \<^verbatim>\<open>currentUser.friends\<close> throw (500). Both subdocuments get the one time \<open>now\<close>.
\<close>

definition send_request ::
  "user_id \<Rightarrow> string \<Rightarrow> timestamp \<Rightarrow> state \<Rightarrow> (error + unit) \<times> state" where
  "send_request currentUserId targetUserId now s =
     (if targetUserId = currentUserId
      then (Inl (BadRequest ''You cannot send a friend request to yourself''), s)
      else
        (case users s (cast_id targetUserId) of
           None \<Rightarrow> (Inl (NotFound ''User not found''), s)
         | Some targetUser \<Rightarrow>
             (case users s currentUserId of
                None \<Rightarrow> (Inl (ServerError ''Server error''), s)
              | Some currentUser \<Rightarrow>
                  if targetUserId \<in> set (friends currentUser)
                  then (Inl (BadRequest ''You are already friends with this user''), s)
                  else if list_ex (\<lambda>r. fst r = targetUserId) (sentFriendRequests currentUser)
                  then (Inl (BadRequest ''Friend request already sent''), s)
                  else if list_ex (\<lambda>r. fst r = targetUserId) (friendRequests currentUser)
                  then (Inl (BadRequest ''This user has already sent you a friend request''), s)
                  else
                    (Inr (),
                     update_user (cast_id targetUserId) (push_received currentUserId now)
                       (update_user currentUserId (push_sent (cast_id targetUserId) now) s)))))"

text \<open>\<^verbatim>\<open>POST /api/friends/accept/:id\<close>\<close>

definition accept_request :: "user_id \<Rightarrow> string \<Rightarrow> state \<Rightarrow> (error + unit) \<times> state" where
  "accept_request currentUserId senderUserId s =
     (case users s (cast_id senderUserId) of
        None \<Rightarrow> (Inl (NotFound ''User not found''), s)
      | Some senderUser \<Rightarrow>
          (case users s currentUserId of
             None \<Rightarrow> (Inl (ServerError ''Server error''), s)
           | Some currentUser \<Rightarrow>
               if \<not> list_ex (\<lambda>r. fst r = senderUserId) (friendRequests currentUser)
               then (Inl (BadRequest ''No friend request found from this user''), s)
               else
                 (Inr (),
                  update_user (cast_id senderUserId)
                    (\<lambda>u. addToSet_friend currentUserId (pull_sent currentUserId u))
                    (update_user currentUserId
                       (\<lambda>u. addToSet_friend (cast_id senderUserId)
                              (pull_received (cast_id senderUserId) u)) s))))"

text \<open>\<^verbatim>\<open>POST /api/friends/decline/:id\<close>\<close>

definition decline_request :: "user_id \<Rightarrow> string \<Rightarrow> state \<Rightarrow> (error + unit) \<times> state" where
  "decline_request currentUserId senderUserId s =
     (case users s (cast_id senderUserId) of
        None \<Rightarrow> (Inl (NotFound ''User not found''), s)
      | Some senderUser \<Rightarrow>
          (case users s currentUserId of
             None \<Rightarrow> (Inl (ServerError ''Server error''), s)
           | Some currentUser \<Rightarrow>
               if \<not> list_ex (\<lambda>r. fst r = senderUserId) (friendRequests currentUser)
               then (Inl (BadRequest ''No friend request found from this user''), s)
               else
                 (Inr (),
                  update_user (cast_id senderUserId) (pull_sent currentUserId)
                    (update_user currentUserId (pull_received (cast_id senderUserId)) s))))"

text \<open>\<^verbatim>\<open>DELETE /api/friends/:id\<close>\<close>

definition remove_friend :: "user_id \<Rightarrow> string \<Rightarrow> state \<Rightarrow> (error + unit) \<times> state" where
  "remove_friend currentUserId friendUserId s =
     (case users s (cast_id friendUserId) of
        None \<Rightarrow> (Inl (NotFound ''User not found''), s)
      | Some friendUser \<Rightarrow>
          (case users s currentUserId of
             None \<Rightarrow> (Inl (ServerError ''Server error''), s)
           | Some currentUser \<Rightarrow>
               if friendUserId \<notin> set (friends currentUser)
               then (Inl (BadRequest ''You are not friends with this user''), s)
               else
                 (Inr (),
                  update_user (cast_id friendUserId) (pull_friend currentUserId)
                    (update_user currentUserId (pull_friend (cast_id friendUserId)) s))))"

section \<open>The profile route (routes/users.js)\<close>

text \<open>
  \<^verbatim>\<open>GET /api/users/profile/:id\<close>. The handler uses the URL parameter only in
  \<^verbatim>\<open>findById\<close> and compares the canonical \<^verbatim>\<open>_id\<close> strings afterwards: \<open>profileId\<close> is the
  identifier the parameter is cast to. The document is read without its password and with
  its friends populated (a reference whose document is missing drops out of the populated
  array); \<^verbatim>\<open>isFriend\<close> looks for the requester among the populated friends. The view
  is \<^verbatim>\<open>user.toJSON()\<close>, from which the handler deletes \<^verbatim>\<open>email\<close>, \<^verbatim>\<open>friendRequests\<close> and
  \<^verbatim>\<open>sentFriendRequests\<close> for a requester that is neither a friend nor the owner: \<open>None\<close>
  is a deleted field.
\<close>

record profile_view =
  view_id :: user_id
  view_firstName :: string
  view_lastName :: string
  view_friends :: "user_id list"
  view_email :: "string option"
  view_friendRequests :: "pending list option"
  view_sentFriendRequests :: "pending list option"

record profile_response =
  userData :: profile_view
  isFriend :: bool
  isOwnProfile :: bool

definition populate_friends :: "(user_id \<rightharpoonup> user) \<Rightarrow> user_id list \<Rightarrow> user_id list" where
  "populate_friends us fs = filter (\<lambda>f. us f \<noteq> None) fs"

definition get_profile :: "user_id \<Rightarrow> user_id \<Rightarrow> state \<Rightarrow> error + profile_response" where
  "get_profile uid profileId s =
     (case users s profileId of
        None \<Rightarrow> Inl (NotFound ''User not found'')
      | Some u \<Rightarrow>
          let populated = populate_friends (users s) (friends u);
              is_friend = list_ex (\<lambda>f. f = uid) populated;
              is_own = (profileId = uid);
              full = \<lparr>view_id = profileId, view_firstName = firstName u,
                      view_lastName = lastName u, view_friends = populated,
                      view_email = Some (email u),
                      view_friendRequests = Some (friendRequests u),
                      view_sentFriendRequests = Some (sentFriendRequests u)\<rparr>
          in Inr \<lparr>userData =
                    (if \<not> is_friend \<and> \<not> is_own
                     then full\<lparr>view_email := None, view_friendRequests := None,
                               view_sentFriendRequests := None\<rparr>
                     else full),
                  isFriend = is_friend, isOwnProfile = is_own\<rparr>)"

section \<open>The server as a transition system\<close>

text \<open>
  Modelled from the spec: account registration (\<^verbatim>\<open>routes/auth.js\<close> is not among the
  sources). It creates the User document of a new identity, with an empty friend list
  and no pending request.
\<close>

definition register :: "user_id \<Rightarrow> user \<Rightarrow> state \<Rightarrow> state" where
  "register uid u s =
     (case users s uid of
        Some existing \<Rightarrow> s
      | None \<Rightarrow>
          s\<lparr>users := (users s)(uid \<mapsto>
              u\<lparr>friends := [], friendRequests := [], sentFriendRequests := []\<rparr>)\<rparr>)"

text \<open>
  The requests that write the User documents' relationship fields, the Message
  collection or the registry, each with the arguments of its handler and with what the
  environment supplies (the new ObjectId, the time, the database's ordering). The GET
  handlers other than the conversation fetch leave the state as it is.
\<close>

datatype request =
  Register user_id user
  | PostMessage user_id string string "string option" "string option" nat timestamp
  | GetMessages "message list \<Rightarrow> message list" user_id user_id nat nat timestamp
  | PutRead nat user_id timestamp
  | DeleteMessage nat user_id
  | Join socket_id user_id
  | SendMessage socket_id "string option" "string option" "string option" "string option"
      nat timestamp
  | Disconnect socket_id
  | FriendRequest user_id string timestamp
  | FriendAccept user_id string
  | FriendDecline user_id string
  | FriendRemove user_id string

fun step :: "request \<Rightarrow> state \<Rightarrow> state" where
  "step (Register uid u) s = register uid u s"
| "step (PostMessage uid r c mt fu i now) s = snd (post_message uid r c mt fu i now s)"
| "step (GetMessages srt uid other page limit now) s =
     snd (get_messages srt uid other page limit now s)"
| "step (PutRead mid uid now) s = snd (put_read mid uid now s)"
| "step (DeleteMessage mid uid) s = snd (delete_message mid uid s)"
| "step (Join sid uid) s = snd (on_join sid uid s)"
| "step (SendMessage sid r c mt fu i now) s = snd (snd (on_sendMessage sid r c mt fu i now s))"
| "step (Disconnect sid) s = snd (on_disconnect sid s)"
| "step (FriendRequest uid target now) s = snd (send_request uid target now s)"
| "step (FriendAccept uid origin) s = snd (accept_request uid origin s)"
| "step (FriendDecline uid origin) s = snd (decline_request uid origin s)"
| "step (FriendRemove uid friend) s = snd (remove_friend uid friend s)"

text \<open>A run of the server: one request at a time.\<close>

definition run :: "request list \<Rightarrow> state \<Rightarrow> state" where
  "run reqs s = foldl (\<lambda>st req. step req st) s reqs"

subsection \<open>Relationships, read off the User documents\<close>

definition friends_of :: "state \<Rightarrow> user_id \<Rightarrow> user_id set" where
  "friends_of s a = (case users s a of None \<Rightarrow> {} | Some u \<Rightarrow> set (friends u))"

definition sent_of :: "state \<Rightarrow> user_id \<Rightarrow> user_id set" where
  "sent_of s a = (case users s a of None \<Rightarrow> {} | Some u \<Rightarrow> fst ` set (sentFriendRequests u))"

definition received_of :: "state \<Rightarrow> user_id \<Rightarrow> user_id set" where
  "received_of s a = (case users s a of None \<Rightarrow> {} | Some u \<Rightarrow> fst ` set (friendRequests u))"

definition pending_between :: "state \<Rightarrow> user_id \<Rightarrow> user_id \<Rightarrow> bool" where
  "pending_between s a b =
     (b \<in> sent_of s a \<or> b \<in> received_of s a \<or> a \<in> sent_of s b \<or> a \<in> received_of s b)"

text \<open>
  The two properties of the specification: friendship is symmetric, and no pair has both
  a pending request and a friendship.
\<close>

definition friendship_symmetric :: "state \<Rightarrow> bool" where
  "friendship_symmetric s = (\<forall>a b. (b \<in> friends_of s a) = (a \<in> friends_of s b))"

definition pending_excludes_friendship :: "state \<Rightarrow> bool" where
  "pending_excludes_friendship s =
     (\<forall>a b. \<not> (pending_between s a b \<and> (b \<in> friends_of s a \<or> a \<in> friends_of s b)))"

subsection \<open>The life of a message\<close>

text \<open>
  What may happen to a stored message between two states: nothing, or the flip of its
  read flag from unread to read, which also sets the read time.
\<close>

definition read_transition :: "message \<Rightarrow> message \<Rightarrow> bool" where
  "read_transition m m' =
     (m' = m \<or>
      (isRead m = False \<and> isRead m' \<and> readAt m' \<noteq> None \<and>
       m' = m\<lparr>isRead := True, readAt := readAt m'\<rparr>))"

fun is_delete :: "request \<Rightarrow> bool" where
  "is_delete (DeleteMessage mid uid) = True"
| "is_delete req = False"

text \<open>
  How a request may change the collection: no stored message disappears or moves, each
  goes through a \<open>read_transition\<close>, and whatever is appended is unread.
\<close>

definition lifecycle :: "message list \<Rightarrow> message list \<Rightarrow> bool" where
  "lifecycle old new =
     (length old \<le> length new \<and>
      list_all2 read_transition old (take (length old) new) \<and>
      list_all (\<lambda>m. isRead m = False) (drop (length old) new))"

subsection \<open>Post visibility, in the words of the specification\<close>

text \<open>
  Own posts are always visible to the owner; friends see \<^verbatim>\<open>public\<close> and \<^verbatim>\<open>friends\<close>;
  non-friends see only \<^verbatim>\<open>public\<close>. \<open>friendIds\<close> is the requester's friend list.
\<close>

definition visible_to :: "user_id \<Rightarrow> user_id list \<Rightarrow> post \<Rightarrow> bool" where
  "visible_to requester friendIds p =
     (author p = requester \<or>
      (author p \<in> set friendIds \<and> (privacy p = ''public'' \<or> privacy p = ''friends'')) \<or>
      privacy p = ''public'')"

text \<open>A response of a post list query, each post reduced to its identifier.\<close>

definition post_ids :: "error + post list \<times> nat \<Rightarrow> error + nat list \<times> nat" where
  "post_ids res =
     (case res of
        Inl e \<Rightarrow> Inl e
      | Inr (ps, n) \<Rightarrow> Inr (map post_id ps, n))"

section \<open>Concrete scenarios\<close>

text \<open>
  The identifiers \<open>a\<close>, \<open>b\<close>, \<open>c\<close> and \<open>d\<close> stand for canonical ObjectId strings;
  \<open>A\<close> and \<open>B\<close> are \<open>a\<close> and \<open>b\<close> with the hexadecimal letters in upper case.
\<close>

definition blank_user :: "string \<Rightarrow> user" where
  "blank_user e =
     \<lparr>email = e, password = ''secret'', firstName = ''First'', lastName = ''Last'',
      friends = [], friendRequests = [], sentFriendRequests = []\<rparr>"

text \<open>Two registered accounts, \<open>a\<close> and \<open>b\<close>, that have no relationship.\<close>

definition strangers :: state where
  "strangers = run [Register ''a'' (blank_user ''a@x''), Register ''b'' (blank_user ''b@x'')]
     empty_state"

text \<open>
  Three accounts: \<open>a\<close> asked \<open>b\<close>, \<open>b\<close> accepted; \<open>c\<close> has no relationship.
\<close>

definition friends_ab :: state where
  "friends_ab =
     run [Register ''a'' (blank_user ''a@x''), Register ''b'' (blank_user ''b@x''),
          Register ''c'' (blank_user ''c@x''), FriendRequest ''a'' ''b'' 1,
          FriendAccept ''b'' ''a''] empty_state"

text \<open>Two accounts and a pending request from \<open>a\<close> to \<open>b\<close>.\<close>

definition asked :: state where
  "asked =
     run [Register ''a'' (blank_user ''a@x''), Register ''b'' (blank_user ''b@x''),
          FriendRequest ''a'' ''b'' 1] empty_state"




text \<open>The inbox of \<open>a\<close> after \<open>b\<close> sent \<open>n\<close> messages, none of them read.\<close>

definition inbox :: "nat \<Rightarrow> state" where
  "inbox n =
     friends_ab\<lparr>messages :=
       map (\<lambda>i. new_message i (int i) ''b'' ''a'' ''hello'' ''text'' []) [0..<n]\<rparr>"

text \<open>Three posts of \<open>b\<close>, one of each privacy.\<close>

definition gallery :: state where
  "gallery =
     friends_ab\<lparr>posts :=
       [\<lparr>post_id = 1, author = ''b'', post_content = ''one'', privacy = ''public'',
         post_createdAt = 1\<rparr>,
        \<lparr>post_id = 2, author = ''b'', post_content = ''two'', privacy = ''friends'',
         post_createdAt = 2\<rparr>,
        \<lparr>post_id = 3, author = ''b'', post_content = ''three'', privacy = ''private'',
         post_createdAt = 3\<rparr>]\<rparr>"

section \<open>Identifiers and orderings\<close>

lemma cast_id_scenario:
  "cast_id ''a'' = ''a''" "cast_id ''b'' = ''b''" "cast_id ''c'' = ''c''"
  "cast_id ''d'' = ''d''" "cast_id ''A'' = ''a''" "cast_id ''B'' = ''b''"
  by (simp_all add: cast_id_def lower_hex_def)

lemma desc_sort_mset: "desc_sort key srt \<Longrightarrow> mset (srt xs) = mset xs"
  by (simp add: desc_sort_def)

lemma desc_sort_sorted: "desc_sort key srt \<Longrightarrow> sorted_wrt (\<lambda>a b. key b \<le> key a) (srt xs)"
  by (simp add: desc_sort_def)

lemma desc_sort_set: "desc_sort key srt \<Longrightarrow> set (srt xs) = set xs"
  by (rule mset_eq_setD) (rule desc_sort_mset)

lemma desc_sort_length: "desc_sort key srt \<Longrightarrow> length (srt xs) = length xs"
  by (rule mset_eq_length) (rule desc_sort_mset)




lemma desc_sort_reversed: "desc_sort key (reversed_desc key)"
proof -
  have "sorted_wrt (\<lambda>a b. key b \<le> key a) (rev (sort_key key xs))" for xs :: "'a list"
  proof -
    have "sorted (map key (sort_key key xs))"
      by (rule sorted_sort_key)
    then have "sorted_wrt (\<lambda>a b. key a \<le> key b) (sort_key key xs)"
      by (simp add: sorted_map)
    then show ?thesis by (simp add: sorted_wrt_rev)
  qed
  then show ?thesis by (simp add: desc_sort_def reversed_desc_def)
qed



lemma in_some_page:
  assumes "x \<in> set xs"
  shows "\<exists>page. 0 < page \<and> x \<in> set (page_of page limit xs)"
proof -
  from assms obtain i where i: "i < length xs" and x: "xs ! i = x"
    by (auto simp: in_set_conv_nth)
  show ?thesis
  proof (cases "limit = 0")
    case True
    with assms have "x \<in> set (page_of 1 limit xs)" by (simp add: page_of_def)
    then show ?thesis by (intro exI [of _ 1]) simp
  next
    case False
    define k where "k = (i div limit) * limit"
    have "k + i mod limit = i" by (simp add: k_def)
    moreover have "i mod limit < limit" using False by simp
    ultimately have le: "k \<le> i" and lt: "i - k < limit" by linarith+
    from i le have k_len: "k \<le> length xs" by linarith
    then have "drop k xs ! (i - k) = xs ! (k + (i - k))" by (rule nth_drop)
    also from le have "k + (i - k) = i" by linarith
    finally have at: "drop k xs ! (i - k) = x" using x by simp
    have "length (drop k xs) = length xs - k" by simp
    with i le have in_range: "i - k < length (drop k xs)" by linarith
    from lt in_range have "take limit (drop k xs) ! (i - k) = drop k xs ! (i - k)"
      by simp
    moreover from lt in_range have "i - k < length (take limit (drop k xs))" by simp
    ultimately have "x \<in> set (take limit (drop k xs))"
      using at by (metis nth_mem)
    moreover have "nat ((int (i div limit + 1) - 1) * int limit) = k"
      by (simp add: k_def nat_mult_distrib)
    ultimately have "x \<in> set (page_of (i div limit + 1) limit xs)"
      using False by (simp add: page_of_def)
    then show ?thesis by (intro exI [of _ "i div limit + 1"]) simp
  qed
qed

section \<open>The concrete scenarios, evaluated\<close>

lemma strangers_users:
  "users strangers = [''a'' \<mapsto> blank_user ''a@x'', ''b'' \<mapsto> blank_user ''b@x'']"
  by (simp add: strangers_def run_def register_def empty_state_def blank_user_def)

lemma friends_ab_users:
  "users friends_ab =
     [''a'' \<mapsto> (blank_user ''a@x'')\<lparr>friends := [''b'']\<rparr>,
      ''b'' \<mapsto> (blank_user ''b@x'')\<lparr>friends := [''a'']\<rparr>,
      ''c'' \<mapsto> blank_user ''c@x'']"
  by (rule ext)
     (simp add: friends_ab_def run_def register_def empty_state_def send_request_def
      accept_request_def update_user_def push_sent_def push_received_def pull_sent_def
      pull_received_def addToSet_friend_def blank_user_def cast_id_scenario)

lemma asked_users:
  "users asked =
     [''a'' \<mapsto> (blank_user ''a@x'')\<lparr>sentFriendRequests := [(''b'', 1)]\<rparr>,
      ''b'' \<mapsto> (blank_user ''b@x'')\<lparr>friendRequests := [(''a'', 1)]\<rparr>]"
  by (rule ext)
     (simp add: asked_def run_def register_def empty_state_def send_request_def
      update_user_def push_sent_def push_received_def blank_user_def cast_id_scenario)

lemma friends_ab_rest:
  "messages friends_ab = []" "posts friends_ab = []"
  by (simp_all add: friends_ab_def run_def register_def empty_state_def send_request_def
      accept_request_def update_user_def cast_id_scenario)

lemma strangers_rest:
  "messages strangers = []" "activeUsers strangers = Map.empty"
  "socketToUser strangers = Map.empty"
  by (simp_all add: strangers_def run_def register_def empty_state_def)

lemma length_page_of_first:
  "length (page_of (Suc 0) limit xs) = (if limit = 0 then length xs else min limit (length xs))"
  by (auto simp: page_of_def)

section \<open>Connection registry\<close>

lemma on_join_registers:
  "activeUsers (snd (on_join sid u s)) u = Some sid \<and>
   socketToUser (snd (on_join sid u s)) sid = Some u"
  by (simp add: on_join_def)

lemma on_join_other_users:
  "v \<noteq> u \<Longrightarrow> activeUsers (snd (on_join sid u s)) v = activeUsers s v"
  by (simp add: on_join_def)

text \<open>
  C4. The registry maps a user to at most one handle and a join replaces the handle, but a
  disconnect does not remove only the entries of the disconnecting connection: after user
  \<open>U\<close> joins with handle \<open>H1\<close> and then with \<open>H2\<close>, the entry \<open>H1 \<mapsto> U\<close> of
  \<^verbatim>\<open>socketToUser\<close> is still there, so the disconnect of \<open>H1\<close> deletes \<open>U\<close> from
  \<^verbatim>\<open>activeUsers\<close> although \<open>U\<close> was mapped to \<open>H2\<close>, and \<open>H2 \<mapsto> U\<close> stays behind
  in \<^verbatim>\<open>socketToUser\<close>.
\<close>

theorem registry_stale_disconnect:
  "activeUsers (snd (on_join ''H2'' ''U'' (snd (on_join ''H1'' ''U'' empty_state)))) ''U''
     = Some ''H2'' \<and>
   activeUsers (snd (on_disconnect ''H1''
       (snd (on_join ''H2'' ''U'' (snd (on_join ''H1'' ''U'' empty_state)))))) ''U'' = None \<and>
   socketToUser (snd (on_disconnect ''H1''
       (snd (on_join ''H2'' ''U'' (snd (on_join ''H1'' ''U'' empty_state)))))) ''H2''
     = Some ''U''"
  by (simp add: on_join_def on_disconnect_def empty_state_def truthy_def)

theorem registry_stale_disconnect_witness:
  "activeUsers (snd (on_disconnect ''H1''
       (snd (on_join ''H2'' ''U'' (snd (on_join ''H1'' ''U'' empty_state)))))) ''U''
   \<noteq> activeUsers (snd (on_join ''H2'' ''U'' (snd (on_join ''H1'' ''U'' empty_state)))) ''U''"
  using registry_stale_disconnect by simp

section \<open>Presence\<close>







section \<open>Message creation and friendship\<close>

text \<open>The REST endpoint is gated: it stores a message only for a friend or for oneself.\<close>

lemma post_message_gated:
  assumes "post_message uid r c mt fu i now s = (Inr m, s')"
  shows "\<exists>su. users s uid = Some su \<and> (r \<in> set (friends su) \<or> r = uid)"
  using assms
  by (auto simp: post_message_def Let_def split: if_splits option.splits)

lemma post_message_refused_unchanged:
  "fst (post_message uid r c mt fu i now s) = Inl e \<Longrightarrow>
   snd (post_message uid r c mt fu i now s) = s"
  by (auto simp: post_message_def Let_def split: if_splits option.splits)

text \<open>
  C1. The real-time channel is not gated. \<open>a\<close> and \<open>b\<close> are registered and are not
  friends: the REST endpoint refuses the message of \<open>a\<close> to \<open>b\<close> with 403 and stores
  nothing, while the \<^verbatim>\<open>sendMessage\<close> event of a socket joined as \<open>a\<close> acknowledges
  success and stores the message. The handler in \<^verbatim>\<open>server.js\<close> never reads the friend
  list.
\<close>

theorem socket_send_skips_friend_check:
  "fst (post_message ''a'' ''b'' ''hi'' None None 1 10 strangers)
     = Inl (Forbidden ''You can only send messages to friends'') \<and>
   messages (snd (post_message ''a'' ''b'' ''hi'' None None 1 10 strangers)) = [] \<and>
   fst (on_sendMessage ''H1'' (Some ''b'') (Some ''hi'') None None 1 10
          (snd (on_join ''H1'' ''a'' strangers)))
     = AckSuccess (new_message 1 10 ''a'' ''b'' ''hi'' ''text'' []) \<and>
   messages (snd (snd (on_sendMessage ''H1'' (Some ''b'') (Some ''hi'') None None 1 10
          (snd (on_join ''H1'' ''a'' strangers)))))
     = [new_message 1 10 ''a'' ''b'' ''hi'' ''text'' []]"
  by (simp add: post_message_def on_sendMessage_def on_join_def strangers_users strangers_rest
      blank_user_def truthy_def trim_def is_space_def Let_def cast_id_scenario)

theorem socket_send_skips_friend_check_witness:
  "messages (snd (snd (on_sendMessage ''H1'' (Some ''b'') (Some ''hi'') None None 1 10
          (snd (on_join ''H1'' ''a'' strangers)))))
   \<noteq> messages (snd (post_message ''a'' ''b'' ''hi'' None None 1 10 strangers))"
  using socket_send_skips_friend_check by simp

section \<open>Unread accounting\<close>

lemma updateMany_read_all_read:
  assumes "m \<in> set (updateMany_read B A now ms)" and "sender m = B" and "receiver m = A"
  shows "isRead m"
proof -
  from assms(1) have "m \<in> (\<lambda>x. if sender x = B \<and> receiver x = A \<and> isRead x = False
      then mark_as_read now x else x) ` set ms"
    by (simp only: updateMany_read_def set_map)
  then obtain x where
    x: "m = (if sender x = B \<and> receiver x = A \<and> isRead x = False then mark_as_read now x else x)"
    by (rule imageE)
  show ?thesis
  proof (cases "sender x = B \<and> receiver x = A \<and> isRead x = False")
    case True
    with x show ?thesis by (simp add: mark_as_read_def)
  next
    case False
    have "m = x" by (simp only: x False if_False)
    with False assms(2,3) show ?thesis by metis
  qed
qed

lemma updateMany_read_ids: "map msg_id (updateMany_read B A now ms) = map msg_id ms"
  by (induction ms) (auto simp: updateMany_read_def mark_as_read_def)

lemma updateMany_read_unread_others:
  "filter (\<lambda>m. receiver m = A \<and> \<not> isRead m) (updateMany_read B A now ms)
     = filter (\<lambda>m. receiver m = A \<and> \<not> isRead m \<and> sender m \<noteq> B) ms"
  by (induction ms) (auto simp: updateMany_read_def mark_as_read_def)

lemma get_messages_ok:
  assumes "users s B \<noteq> None" and "0 < page"
  shows "\<exists>reply. get_messages srt A B page limit now s
           = (Inr reply, s\<lparr>messages := updateMany_read B A now (messages s)\<rparr>)"
proof -
  from assms(2) have "0 \<le> (int page - 1) * int limit"
    by (intro mult_nonneg_nonneg) simp_all
  then have "\<not> negative_skip page limit"
    by (simp add: negative_skip_def)
  with assms(1) show ?thesis
    by (auto simp: get_messages_def Let_def)
qed

text \<open>
  C3. Let \<open>B\<close> be a user with a document and \<open>A\<close> fetch the conversation with \<open>B\<close> once
  (any page from 1 on, any limit, whatever ordering the database applies): the fetch
  succeeds, the collection holds the same messages as before, every message from \<open>B\<close> to
  \<open>A\<close> is read, whatever their number and the page limit, and the unread count of \<open>A\<close> is
  then the number of unread messages to \<open>A\<close> from senders other than \<open>B\<close>: none of them
  is from \<open>B\<close>.
\<close>

theorem fetch_marks_all_read:
  assumes "users s B \<noteq> None" and "0 < page"
  shows "(\<exists>reply. fst (get_messages srt A B page limit now s) = Inr reply) \<and>
         map msg_id (messages (snd (get_messages srt A B page limit now s))) = map msg_id (messages s) \<and>
         (\<forall>m \<in> set (messages (snd (get_messages srt A B page limit now s))).
             sender m = B \<and> receiver m = A \<longrightarrow> isRead m) \<and>
         unread_count A (snd (get_messages srt A B page limit now s))
           = length (filter (\<lambda>m. receiver m = A \<and> isRead m = False \<and> sender m \<noteq> B) (messages s))"
proof -
  from get_messages_ok [OF assms] obtain reply where
    eq: "get_messages srt A B page limit now s
           = (Inr reply, s\<lparr>messages := updateMany_read B A now (messages s)\<rparr>)"
    by blast
  have all_read: "\<forall>m \<in> set (updateMany_read B A now (messages s)).
      sender m = B \<and> receiver m = A \<longrightarrow> isRead m"
    using updateMany_read_all_read by blast
  show ?thesis
    unfolding eq
    using all_read
    by (simp add: updateMany_read_ids unread_count_def updateMany_read_unread_others)
qed

theorem fetch_marks_all_read_witness:
  "unread_count ''a'' (inbox 51) = 51 \<and>
   (case fst (get_messages (stable_desc createdAt) ''a'' ''b'' 1 50 1000 (inbox 51)) of
      Inl e \<Rightarrow> 0 | Inr reply \<Rightarrow> length (fst reply)) = 50 \<and>
   unread_count ''a'' (snd (get_messages (stable_desc createdAt) ''a'' ''b'' 1 50 1000 (inbox 51))) = 0"
proof -
  have user: "users (inbox 51) ''b'' \<noteq> None"
    by (simp add: inbox_def friends_ab_users)
  have page: "0 < (1::nat)" by simp
  have before: "unread_count ''a'' (inbox 51) = 51"
    by (simp add: inbox_def unread_count_def new_message_def filter_map o_def)
  have reply: "(case fst (get_messages (stable_desc createdAt) ''a'' ''b'' 1 50 1000 (inbox 51)) of
      Inl e \<Rightarrow> 0 | Inr reply \<Rightarrow> length (fst reply)) = 50"
    by (simp add: get_messages_def inbox_def friends_ab_users negative_skip_def Let_def
        length_page_of_first stable_desc_def between_def new_message_def filter_map o_def)
  have "unread_count ''a'' (snd (get_messages (stable_desc createdAt) ''a'' ''b'' 1 50 1000 (inbox 51)))
      = length (filter (\<lambda>m. receiver m = ''a'' \<and> isRead m = False \<and> sender m \<noteq> ''b'')
          (messages (inbox 51)))"
    using fetch_marks_all_read [OF user page, where A = "''a''" and limit = 50 and now = 1000
        and srt = "stable_desc createdAt"]
    by simp
  also have "\<dots> = 0"
    by (simp add: inbox_def new_message_def filter_map o_def)
  finally show ?thesis using before reply by simp
qed

section \<open>Message lifecycle\<close>

lemma read_transition_refl: "list_all2 read_transition xs xs"
  by (simp add: list_all2_refl read_transition_def)

lemma read_transition_same: "read_transition m m"
  by (simp add: read_transition_def)

lemma read_transition_mark: "isRead m = False \<Longrightarrow> read_transition m (mark_as_read now m)"
  by (simp add: read_transition_def mark_as_read_def)

lemma read_transition_fields:
  "read_transition m m' \<Longrightarrow>
     msg_id m' = msg_id m \<and> sender m' = sender m \<and> receiver m' = receiver m \<and>
     content m' = content m \<and> messageType m' = messageType m \<and> fileUrl m' = fileUrl m \<and>
     createdAt m' = createdAt m \<and> (isRead m \<longrightarrow> m' = m)"
  by (auto simp: read_transition_def)

lemma messages_update_user [simp]: "messages (update_user uid f s) = messages s"
  by (simp add: update_user_def split: option.splits)

lemma updateMany_read_transition: "list_all2 read_transition ms (updateMany_read B A now ms)"
  by (induction ms) (simp_all add: updateMany_read_def read_transition_mark read_transition_same)

lemma update_first_transition:
  "find P ms = Some m \<Longrightarrow> isRead m = False \<Longrightarrow>
   list_all2 read_transition ms (update_first P (mark_as_read now) ms)"
  by (induction ms) (auto simp: read_transition_mark read_transition_refl read_transition_same)

lemma messages_register [simp]: "messages (register uid u s) = messages s"
  by (simp add: register_def split: option.splits)

lemma messages_send_request [simp]: "messages (snd (send_request a b now s)) = messages s"
  by (simp add: send_request_def split: option.splits)

lemma messages_accept_request [simp]: "messages (snd (accept_request a b s)) = messages s"
  by (simp add: accept_request_def split: option.splits)

lemma messages_decline_request [simp]: "messages (snd (decline_request a b s)) = messages s"
  by (simp add: decline_request_def split: option.splits)

lemma messages_remove_friend [simp]: "messages (snd (remove_friend a b s)) = messages s"
  by (simp add: remove_friend_def split: option.splits)

lemma messages_on_join [simp]: "messages (snd (on_join sid u s)) = messages s"
  by (simp add: on_join_def)

lemma messages_on_disconnect [simp]: "messages (snd (on_disconnect sid s)) = messages s"
  by (simp add: on_disconnect_def split: option.splits)

lemma messages_post_message:
  "messages (snd (post_message uid r c mt fu i now s)) = messages s \<or>
   (\<exists>m. isRead m = False \<and> messages (snd (post_message uid r c mt fu i now s)) = messages s @ [m])"
  by (auto simp: post_message_def Let_def new_message_def split: option.splits)

lemma messages_on_sendMessage:
  "messages (snd (snd (on_sendMessage sid r c mt fu i now s))) = messages s \<or>
   (\<exists>m. isRead m = False \<and>
        messages (snd (snd (on_sendMessage sid r c mt fu i now s))) = messages s @ [m])"
  by (auto simp: on_sendMessage_def Let_def new_message_def split: option.splits)

lemma messages_get_messages:
  "list_all2 read_transition (messages s) (messages (snd (get_messages srt a b page limit now s))) "
  by (auto simp: get_messages_def Let_def updateMany_read_transition read_transition_refl
      split: option.splits)

lemma messages_put_read:
  "list_all2 read_transition (messages s) (messages (snd (put_read mid uid now s)))"
  by (auto simp: put_read_def read_transition_refl update_first_transition split: option.splits)

lemma lifecycle_same:
  assumes "list_all2 read_transition old new"
  shows "lifecycle old new"
proof -
  from assms have "length old = length new" by (rule list_all2_lengthD)
  with assms show ?thesis by (simp add: lifecycle_def)
qed

lemma lifecycle_append: "isRead m = False \<Longrightarrow> lifecycle old (old @ [m])"
  by (simp add: lifecycle_def read_transition_refl)

lemma step_lifecycle: "\<not> is_delete req \<Longrightarrow> lifecycle (messages s) (messages (step req s))"
proof (cases req)
  case (PostMessage uid r c mt fu i now)
  then show ?thesis
    using messages_post_message [of uid r c mt fu i now s]
    by (auto simp: lifecycle_append lifecycle_same read_transition_refl)
next
  case (SendMessage sid r c mt fu i now)
  then show ?thesis
    using messages_on_sendMessage [of sid r c mt fu i now s]
    by (auto simp: lifecycle_append lifecycle_same read_transition_refl)
next
  case (GetMessages srt a b page limit now)
  then show ?thesis by (simp add: lifecycle_same messages_get_messages)
next
  case (PutRead mid uid now)
  then show ?thesis by (simp add: lifecycle_same messages_put_read)
qed (simp_all add: lifecycle_same read_transition_refl)

lemma delete_first_split:
  "find P xs = Some m \<Longrightarrow> \<exists>ys zs. xs = ys @ m # zs \<and> delete_first P xs = ys @ zs \<and> P m"
proof (induction xs)
  case Nil
  then show ?case by simp
next
  case (Cons x xs)
  show ?case
  proof (cases "P x")
    case True
    with Cons.prems have "x = m" by simp
    with True show ?thesis by (intro exI [of _ "[]"] exI [of _ xs]) simp
  next
    case False
    with Cons obtain ys zs where "xs = ys @ m # zs" "delete_first P xs = ys @ zs" "P m"
      by auto
    with False show ?thesis by (intro exI [of _ "x # ys"] exI [of _ zs]) simp
  qed
qed

lemma delete_message_cases:
  "(\<exists>e. delete_message mid uid s = (Inl e, s)) \<or>
   (\<exists>m ys zs. fst (delete_message mid uid s) = Inr () \<and> sender m = uid \<and> msg_id m = mid \<and>
      messages s = ys @ m # zs \<and> messages (snd (delete_message mid uid s)) = ys @ zs)"
proof (cases "find (\<lambda>m. msg_id m = mid) (messages s)")
  case None
  then show ?thesis by (simp add: delete_message_def)
next
  case (Some m)
  from delete_first_split [OF Some] obtain ys zs where
    "messages s = ys @ m # zs" "delete_first (\<lambda>m. msg_id m = mid) (messages s) = ys @ zs"
    "msg_id m = mid" by blast
  with Some show ?thesis
    by (cases "sender m = uid") (auto simp: delete_message_def)
qed

text \<open>
  C5. Whatever the request and the state: a request other than the deletion leaves every
  stored message in its place, unchanged or with its read flag flipped from unread to read
  (so sender, receiver, content and creation time stay, and a read message stays as it
  is, see \<open>read_transition_fields\<close>), and appends only unread messages; the deletion
  either fails and changes nothing, or removes one message with the requested id whose
  sender is the requester and leaves the others as they are.
\<close>

theorem message_lifecycle:
  "(\<not> is_delete req \<longrightarrow> lifecycle (messages s) (messages (step req s))) \<and>
   (\<forall>mid uid. req = DeleteMessage mid uid \<longrightarrow>
      (\<exists>e. delete_message mid uid s = (Inl e, s)) \<or>
      (\<exists>m ys zs. fst (delete_message mid uid s) = Inr () \<and> sender m = uid \<and> msg_id m = mid \<and>
         messages s = ys @ m # zs \<and> messages (step req s) = ys @ zs))"
  using step_lifecycle [of req s] delete_message_cases by auto

theorem message_lifecycle_witness:
  "lifecycle (messages (inbox (Suc (Suc 0))))
     (messages (step (GetMessages (stable_desc createdAt) ''a'' ''b'' 1 50 1000) (inbox (Suc (Suc 0))))) \<and>
   list_all isRead (messages (step (GetMessages (stable_desc createdAt) ''a'' ''b'' 1 50 1000) (inbox (Suc (Suc 0))))) \<and>
   fst (delete_message 0 ''a'' (inbox (Suc (Suc 0))))
     = Inl (Forbidden ''Not authorized to delete this message'') \<and>
   fst (delete_message 0 ''b'' (inbox (Suc (Suc 0)))) = Inr () \<and>
   map msg_id (messages (step (DeleteMessage 0 ''b'') (inbox (Suc (Suc 0))))) = [1]"
proof -
  have "lifecycle (messages (inbox (Suc (Suc 0))))
     (messages (step (GetMessages (stable_desc createdAt) ''a'' ''b'' 1 50 1000) (inbox (Suc (Suc 0)))))"
    using message_lifecycle [of "GetMessages (stable_desc createdAt) ''a'' ''b'' 1 50 1000" "inbox (Suc (Suc 0))"]
    by simp
  moreover have
    "list_all isRead (messages (step (GetMessages (stable_desc createdAt) ''a'' ''b'' 1 50 1000) (inbox (Suc (Suc 0)))))"
    by (simp add: get_messages_def inbox_def friends_ab_users negative_skip_def Let_def
        updateMany_read_def mark_as_read_def new_message_def)
  moreover have "fst (delete_message 0 ''a'' (inbox (Suc (Suc 0))))
     = Inl (Forbidden ''Not authorized to delete this message'')"
    by (simp add: delete_message_def inbox_def new_message_def)
  moreover have "fst (delete_message 0 ''b'' (inbox (Suc (Suc 0)))) = Inr ()"
    by (simp add: delete_message_def inbox_def new_message_def)
  moreover have
    "map msg_id (messages (step (DeleteMessage 0 ''b'') (inbox (Suc (Suc 0))))) = [1]"
    by (simp add: delete_message_def inbox_def new_message_def)
  ultimately show ?thesis by simp
qed

section \<open>Post visibility\<close>

lemma feed_filter_visible:
  "feed_filter uid fr p = ((author p = uid \<or> author p \<in> set fr) \<and> visible_to uid fr p)"
  by (auto simp: feed_filter_def visible_to_def)

lemma user_posts_filter_canonical:
  "cast_id userId = userId \<Longrightarrow>
   user_posts_filter uid fr userId p = (author p = userId \<and> visible_to uid fr p)"
  by (auto simp: user_posts_filter_def privacyFilter_def visible_to_def)

lemma set_page_of: "set (page_of page limit xs) \<subseteq> set xs"
  by (auto simp: page_of_def Let_def dest: in_set_takeD in_set_dropD)

lemma in_page_filterD:
  assumes "desc_sort key srt" and "p \<in> set (page_of page limit (srt (filter Q ps)))"
  shows "Q p" and "p \<in> set ps"
proof -
  have "p \<in> set (srt (filter Q ps))"
    by (rule subsetD [OF set_page_of assms(2)])
  then have "p \<in> set (filter Q ps)"
    by (simp only: desc_sort_set [OF assms(1)])
  then show "Q p" and "p \<in> set ps" by simp_all
qed

text \<open>
  Whatever the spelling of the parameter and the order of equal creation times: a post on
  a page of the feed is the requester's own or a \<^verbatim>\<open>public\<close> or \<^verbatim>\<open>friends\<close> post of a user
  in the requester's friend list, and a \<^verbatim>\<open>private\<close> post is listed only for a requester
  that asks for the posts of \<^verbatim>\<open>req.user.id\<close> as it is spelt there.
\<close>

lemma feed_page_visible:
  assumes "get_feed srt uid page limit s = Inr (ps, n)"
    and "desc_sort post_createdAt srt" and "p \<in> set ps" and "users s uid = Some cu"
  shows "visible_to uid (friends cu) p"
    and "privacy p = ''private'' \<Longrightarrow> author p = uid"
proof -
  from assms(1,4) have "ps = page_of page limit (srt (filter (feed_filter uid (friends cu)) (posts s)))"
    by (simp add: get_feed_def split: if_splits)
  with assms(3) have "p \<in> set (page_of page limit (srt (filter (feed_filter uid (friends cu)) (posts s))))"
    by simp
  from in_page_filterD(1) [OF assms(2) this]
  have f: "feed_filter uid (friends cu) p" .
  then show "visible_to uid (friends cu) p" by (simp add: feed_filter_visible)
  assume "privacy p = ''private''"
  with f show "author p = uid" by (auto simp: feed_filter_def)
qed

lemma user_posts_private_own:
  assumes "get_user_posts srt uid userId page limit s = Inr (ps, n)"
    and "desc_sort post_createdAt srt" and "p \<in> set ps" and "privacy p = ''private''"
  shows "userId = uid \<and> author p = cast_id uid"
proof -
  from assms(1) obtain cu where cu: "users s uid = Some cu"
    by (cases "users s uid") (simp_all add: get_user_posts_def split: option.splits)
  with assms(1)
  have "ps = page_of page limit (srt (filter (user_posts_filter uid (friends cu) userId) (posts s)))"
    by (simp add: get_user_posts_def split: option.splits if_splits)
  with assms(3)
  have "p \<in> set (page_of page limit
                  (srt (filter (user_posts_filter uid (friends cu) userId) (posts s))))"
    by simp
  from in_page_filterD(1) [OF assms(2) this]
  have "user_posts_filter uid (friends cu) userId p" .
  with assms(4) show ?thesis
    by (auto simp: user_posts_filter_def privacyFilter_def split: if_splits)
qed

lemma user_posts_listed:
  assumes "desc_sort post_createdAt srt" and "users s uid = Some cu"
    and "users s userId = Some tu" and "cast_id userId = userId"
    and "p \<in> set (posts s)" and "author p = userId" and "visible_to uid (friends cu) p"
  shows "\<exists>page ps n. 0 < page \<and>
           get_user_posts srt uid userId page limit s = Inr (ps, n) \<and> p \<in> set ps"
proof -
  let ?all = "srt (filter (user_posts_filter uid (friends cu) userId) (posts s))"
  from assms(4,6,7) have "user_posts_filter uid (friends cu) userId p"
    by (simp add: user_posts_filter_canonical)
  with assms(5) have "p \<in> set (filter (user_posts_filter uid (friends cu) userId) (posts s))"
    by simp
  then have "p \<in> set ?all" by (simp only: desc_sort_set [OF assms(1)])
  from in_some_page [OF this] obtain page where
    page: "0 < page" and p: "p \<in> set (page_of page limit ?all)" by blast
  from page have "0 \<le> (int page - 1) * int limit"
    by (intro mult_nonneg_nonneg) simp_all
  then have "\<not> negative_skip page limit" by (simp add: negative_skip_def)
  with assms(2,3,4)
  have "get_user_posts srt uid userId page limit s
      = Inr (page_of page limit ?all,
             length (filter (user_posts_filter uid (friends cu) userId) (posts s)))"
    by (simp add: get_user_posts_def)
  with page p show ?thesis by blast
qed

text \<open>
  C9. The list of one user's posts does not show the owner every own post, nor a friend
  every \<^verbatim>\<open>public\<close> and \<^verbatim>\<open>friends\<close> post. In \<open>gallery\<close>, \<open>b\<close> has one post of each privacy
  (with distinct creation times, so there is one order newest first) and \<open>a\<close> is a friend
  of \<open>b\<close>. Asked for the posts of \<open>b\<close>, the handler lists all three to \<open>b\<close> and the
  \<^verbatim>\<open>public\<close> and the \<^verbatim>\<open>friends\<close> post to \<open>a\<close>. Asked for the posts of \<open>B\<close>, the same
  identifier with the letter in upper case, it finds the same user and the same author,
  but \<^verbatim>\<open>userId === req.user.id\<close> and \<^verbatim>\<open>friends.includes(userId)\<close> compare the string as
  it came and fail: \<open>b\<close> and \<open>a\<close> get the \<^verbatim>\<open>public\<close> post only.
\<close>

theorem user_posts_spelling:
  "post_ids (get_user_posts (stable_desc post_createdAt) ''b'' ''b'' 1 10 gallery)
     = Inr ([3, 2, 1], 3) \<and>
   post_ids (get_user_posts (stable_desc post_createdAt) ''b'' ''B'' 1 10 gallery)
     = Inr ([1], 1) \<and>
   post_ids (get_user_posts (stable_desc post_createdAt) ''a'' ''b'' 1 10 gallery)
     = Inr ([2, 1], 2) \<and>
   post_ids (get_user_posts (stable_desc post_createdAt) ''a'' ''B'' 1 10 gallery)
     = Inr ([1], 1)"
proof -
  note defs = post_ids_def get_user_posts_def gallery_def friends_ab_users
    user_posts_filter_def privacyFilter_def negative_skip_def page_of_def stable_desc_def
    cast_id_scenario Let_def
  have "post_ids (get_user_posts (stable_desc post_createdAt) ''b'' ''b'' 1 10 gallery)
     = Inr ([3, 2, 1], 3)"
    by (simp add: defs)
  moreover
  have "post_ids (get_user_posts (stable_desc post_createdAt) ''b'' ''B'' 1 10 gallery)
     = Inr ([1], 1)"
    by (simp add: defs)
  moreover
  have "post_ids (get_user_posts (stable_desc post_createdAt) ''a'' ''b'' 1 10 gallery)
     = Inr ([2, 1], 2)"
    by (simp add: defs)
  moreover
  have "post_ids (get_user_posts (stable_desc post_createdAt) ''a'' ''B'' 1 10 gallery)
     = Inr ([1], 1)"
    by (simp add: defs)
  ultimately show ?thesis by (intro conjI)
qed

theorem user_posts_spelling_witness:
  "post_ids (get_user_posts (stable_desc post_createdAt) ''b'' ''B'' 1 10 gallery)
   \<noteq> post_ids (get_user_posts (stable_desc post_createdAt) ''b'' ''b'' 1 10 gallery)"
  using user_posts_spelling by simp

section \<open>Profile redaction\<close>

text \<open>
  C10. The profile of a user \<open>U\<close> with a document is always answered. For a requester
  \<open>R\<close> that is neither \<open>U\<close> nor in the friend list of \<open>U\<close>, the view has no email and
  neither list of pending requests; for \<open>R = U\<close>, and for a requester in the friend list
  of \<open>U\<close> (one with a document of its own, as every authenticated requester has), the
  three fields are there with the stored values.
\<close>

theorem profile_redaction:
  assumes "users s U = Some u"
  shows "\<exists>resp. get_profile R U s = Inr resp \<and>
     (R \<noteq> U \<and> R \<notin> set (friends u) \<longrightarrow>
        view_email (userData resp) = None \<and> view_friendRequests (userData resp) = None \<and>
        view_sentFriendRequests (userData resp) = None) \<and>
     (R = U \<or> (R \<in> set (friends u) \<and> users s R \<noteq> None) \<longrightarrow>
        view_email (userData resp) = Some (email u) \<and>
        view_friendRequests (userData resp) = Some (friendRequests u) \<and>
        view_sentFriendRequests (userData resp) = Some (sentFriendRequests u))"
  using assms
  by (auto simp: get_profile_def Let_def populate_friends_def list_ex_iff)

theorem profile_redaction_witness:
  "(\<exists>resp. get_profile ''c'' ''a'' friends_ab = Inr resp \<and>
       view_email (userData resp) = None \<and> view_friendRequests (userData resp) = None) \<and>
   (\<exists>resp. get_profile ''b'' ''a'' friends_ab = Inr resp \<and>
       view_email (userData resp) = Some ''a@x'')"
proof -
  have u: "users friends_ab ''a'' = Some ((blank_user ''a@x'')\<lparr>friends := [''b'']\<rparr>)"
    by (simp add: friends_ab_users)
  have b: "users friends_ab ''b'' \<noteq> None"
    by (simp add: friends_ab_users)
  from profile_redaction [OF u, of "''c''"]
  have "\<exists>resp. get_profile ''c'' ''a'' friends_ab = Inr resp \<and>
       view_email (userData resp) = None \<and> view_friendRequests (userData resp) = None"
    by (auto simp: blank_user_def)
  moreover from profile_redaction [OF u, of "''b''"] b
  have "\<exists>resp. get_profile ''b'' ''a'' friends_ab = Inr resp \<and>
       view_email (userData resp) = Some ''a@x''"
    by (auto simp: blank_user_def)
  ultimately show ?thesis by simp
qed

section \<open>Friend requests\<close>

text \<open>
  What the guards do hold for every spelling of the parameter: a request to an identifier
  without a document and an accept without a matching entry in the requester's
  \<^verbatim>\<open>friendRequests\<close> are refused and change nothing.
\<close>

lemma send_request_refused_unchanged:
  "fst (send_request c t now s) = Inl e \<Longrightarrow> snd (send_request c t now s) = s"
  by (auto simp: send_request_def split: if_splits option.splits)

lemma accept_request_missing:
  assumes "users s c = Some cu" and "\<not> list_ex (\<lambda>r. fst r = p) (friendRequests cu)"
  shows "\<exists>e. accept_request c p s = (Inl e, s)"
  using assms by (simp add: accept_request_def split: option.splits)

text \<open>
  C6. The friend-request state machine does not refuse a self-request or a second request
  for every spelling of the target. The handler compares \<^verbatim>\<open>req.params.id\<close> as a string
  (\<^verbatim>\<open>targetUserId === currentUserId\<close>, \<^verbatim>\<open>request.to.toString() === targetUserId\<close>) and
  hands the same string to \<^verbatim>\<open>findById\<close> and \<^verbatim>\<open>$push\<close>, which cast it. So \<open>a\<close> is
  refused a request to \<open>a\<close> but is granted one to \<open>A\<close>, after which \<open>a\<close> is in the sent
  and in the received list of \<open>a\<close>; with a request from \<open>a\<close> to \<open>b\<close> pending, \<open>a\<close> is
  refused a request to \<open>b\<close> but is granted one to \<open>B\<close>, after which both lists hold the
  request twice. By the same route \<open>b\<close> is granted a request to \<open>A\<close> while the one from
  \<open>a\<close> is pending, and when \<open>a\<close> then accepts \<open>b\<close> the two are friends while \<open>a\<close> still
  lists the request sent to \<open>b\<close> and \<open>b\<close> the one received from \<open>a\<close>.
\<close>

theorem friend_request_spelling:
  "fst (send_request ''a'' ''a'' 1 strangers)
     = Inl (BadRequest ''You cannot send a friend request to yourself'') \<and>
   fst (send_request ''a'' ''A'' 1 strangers) = Inr () \<and>
   users (snd (send_request ''a'' ''A'' 1 strangers)) ''a''
     = Some ((blank_user ''a@x'')
         \<lparr>friendRequests := [(''a'', 1)], sentFriendRequests := [(''a'', 1)]\<rparr>) \<and>
   fst (send_request ''a'' ''b'' 2 asked) = Inl (BadRequest ''Friend request already sent'') \<and>
   fst (send_request ''a'' ''B'' 2 asked) = Inr () \<and>
   users (snd (send_request ''a'' ''B'' 2 asked)) ''a''
     = Some ((blank_user ''a@x'')\<lparr>sentFriendRequests := [(''b'', 1), (''b'', 2)]\<rparr>) \<and>
   users (snd (send_request ''a'' ''B'' 2 asked)) ''b''
     = Some ((blank_user ''b@x'')\<lparr>friendRequests := [(''a'', 1), (''a'', 2)]\<rparr>) \<and>
   fst (send_request ''b'' ''A'' 2 asked) = Inr () \<and>
   fst (accept_request ''a'' ''b'' (snd (send_request ''b'' ''A'' 2 asked))) = Inr () \<and>
   users (snd (accept_request ''a'' ''b'' (snd (send_request ''b'' ''A'' 2 asked)))) ''a''
     = Some ((blank_user ''a@x'')\<lparr>friends := [''b''], sentFriendRequests := [(''b'', 1)]\<rparr>) \<and>
   users (snd (accept_request ''a'' ''b'' (snd (send_request ''b'' ''A'' 2 asked)))) ''b''
     = Some ((blank_user ''b@x'')\<lparr>friends := [''a''], friendRequests := [(''a'', 1)]\<rparr>)"
proof -
  note defs = send_request_def accept_request_def update_user_def push_sent_def
    push_received_def pull_sent_def pull_received_def addToSet_friend_def blank_user_def
    cast_id_scenario strangers_users asked_users
  have "fst (send_request ''a'' ''a'' 1 strangers)
     = Inl (BadRequest ''You cannot send a friend request to yourself'')"
    by (simp add: defs)
  moreover
  have "fst (send_request ''a'' ''A'' 1 strangers) = Inr ()"
    by (simp add: defs)
  moreover
  have "users (snd (send_request ''a'' ''A'' 1 strangers)) ''a''
     = Some ((blank_user ''a@x'')
         \<lparr>friendRequests := [(''a'', 1)], sentFriendRequests := [(''a'', 1)]\<rparr>)"
    by (simp add: defs)
  moreover
  have "fst (send_request ''a'' ''b'' 2 asked) = Inl (BadRequest ''Friend request already sent'')"
    by (simp add: defs)
  moreover
  have "fst (send_request ''a'' ''B'' 2 asked) = Inr ()"
    by (simp add: defs)
  moreover
  have "users (snd (send_request ''a'' ''B'' 2 asked)) ''a''
     = Some ((blank_user ''a@x'')\<lparr>sentFriendRequests := [(''b'', 1), (''b'', 2)]\<rparr>)"
    by (simp add: defs)
  moreover
  have "users (snd (send_request ''a'' ''B'' 2 asked)) ''b''
     = Some ((blank_user ''b@x'')\<lparr>friendRequests := [(''a'', 1), (''a'', 2)]\<rparr>)"
    by (simp add: defs)
  moreover
  have "fst (send_request ''b'' ''A'' 2 asked) = Inr ()"
    by (simp add: defs)
  moreover
  have "fst (accept_request ''a'' ''b'' (snd (send_request ''b'' ''A'' 2 asked))) = Inr ()"
    by (simp add: defs)
  moreover
  have "users (snd (accept_request ''a'' ''b'' (snd (send_request ''b'' ''A'' 2 asked)))) ''a''
     = Some ((blank_user ''a@x'')\<lparr>friends := [''b''], sentFriendRequests := [(''b'', 1)]\<rparr>)"
    by (simp add: defs)
  moreover
  have "users (snd (accept_request ''a'' ''b'' (snd (send_request ''b'' ''A'' 2 asked)))) ''b''
     = Some ((blank_user ''b@x'')\<lparr>friends := [''a''], friendRequests := [(''a'', 1)]\<rparr>)"
    by (simp add: defs)
  ultimately show ?thesis by (intro conjI)
qed

theorem friend_request_spelling_witness:
  "fst (send_request ''a'' ''A'' 1 strangers) \<noteq> fst (send_request ''a'' ''a'' 1 strangers) \<and>
   fst (send_request ''a'' ''B'' 2 asked) \<noteq> fst (send_request ''a'' ''b'' 2 asked)"
  using friend_request_spelling by simp

section \<open>The relationship invariant\<close>

lemma friends_ab_relations:
  "friends_of friends_ab x
     = (if x = ''a'' then {''b''} else if x = ''b'' then {''a''} else {})"
  "sent_of friends_ab x = {}" "received_of friends_ab x = {}"
  by (simp_all add: friends_of_def sent_of_def received_of_def friends_ab_users blank_user_def)

text \<open>
  C7. A friend operation does not preserve the exclusion of pending request and
  friendship. In \<open>friends_ab\<close>, reached by a request of \<open>a\<close> to \<open>b\<close> that \<open>b\<close> accepted,
  friendship is symmetric and no request is pending. A request of \<open>a\<close> to \<open>b\<close> is refused
  (\<^verbatim>\<open>You are already friends with this user\<close>), but a request of \<open>a\<close> to \<open>B\<close> passes
  \<^verbatim>\<open>currentUser.friends.includes(targetUserId)\<close>, which compares the string as it came,
  and both \<^verbatim>\<open>$push\<close> land on the documents the string is cast to: afterwards \<open>a\<close> and
  \<open>b\<close> are friends and a request from \<open>a\<close> to \<open>b\<close> is pending.
\<close>

theorem friend_and_pending:
  "friendship_symmetric friends_ab \<and>
   pending_excludes_friendship friends_ab \<and>
   fst (send_request ''a'' ''b'' 2 friends_ab)
     = Inl (BadRequest ''You are already friends with this user'') \<and>
   fst (send_request ''a'' ''B'' 2 friends_ab) = Inr () \<and>
   ''b'' \<in> friends_of (snd (send_request ''a'' ''B'' 2 friends_ab)) ''a'' \<and>
   ''a'' \<in> friends_of (snd (send_request ''a'' ''B'' 2 friends_ab)) ''b'' \<and>
   ''b'' \<in> sent_of (snd (send_request ''a'' ''B'' 2 friends_ab)) ''a'' \<and>
   ''a'' \<in> received_of (snd (send_request ''a'' ''B'' 2 friends_ab)) ''b'' \<and>
   \<not> pending_excludes_friendship (snd (send_request ''a'' ''B'' 2 friends_ab))"
proof -
  let ?s = "snd (send_request ''a'' ''B'' 2 friends_ab)"
  note defs = send_request_def update_user_def push_sent_def push_received_def
    blank_user_def cast_id_scenario friends_ab_users friends_of_def sent_of_def
    received_of_def
  have sym: "friendship_symmetric friends_ab"
    by (simp add: friendship_symmetric_def friends_ab_relations)
  have excl: "pending_excludes_friendship friends_ab"
    by (simp add: pending_excludes_friendship_def pending_between_def friends_ab_relations)
  have refused: "fst (send_request ''a'' ''b'' 2 friends_ab)
     = Inl (BadRequest ''You are already friends with this user'')"
    by (simp add: defs)
  have granted: "fst (send_request ''a'' ''B'' 2 friends_ab) = Inr ()"
    by (simp add: defs)
  have f1: "''b'' \<in> friends_of ?s ''a''" by (simp add: defs)
  have f2: "''a'' \<in> friends_of ?s ''b''" by (simp add: defs)
  have p1: "''b'' \<in> sent_of ?s ''a''" by (simp add: defs)
  have p2: "''a'' \<in> received_of ?s ''b''" by (simp add: defs)
  from p1 have "pending_between ?s ''a'' ''b''" by (simp add: pending_between_def)
  with f1 have broken: "\<not> pending_excludes_friendship ?s"
    unfolding pending_excludes_friendship_def by blast
  from sym excl refused granted f1 f2 p1 p2 broken show ?thesis by (intro conjI)
qed

theorem friend_and_pending_witness:
  "''b'' \<in> friends_of (snd (send_request ''a'' ''B'' 2 friends_ab)) ''a'' \<and>
   ''b'' \<in> sent_of (snd (send_request ''a'' ''B'' 2 friends_ab)) ''a''"
  using friend_and_pending by simp

section \<open>Conversation aggregation\<close>

















lemma conversations_sorted:
  assumes "desc_sort last_time sort_rows"
  shows "sorted_wrt (\<lambda>a b. last_time b \<le> last_time a)
           (get_conversations sort_messages sort_rows u s)"
  unfolding get_conversations_def by (rule desc_sort_sorted [OF assms])




end
